theory Spec2Isabelle
  imports Main
begin

section \<open>Python values, text and faults\<close>

text \<open>
  A Python \<open>str\<close> is represented by its UTF-8 encoding, a \<open>bytes\<close> object by its
  bytes; both are lists of 8-bit characters. Interpolating into an f-string is list
  concatenation, and the single quote is the one byte \<open>0x27\<close>.
\<close>

type_synonym str = string
type_synonym bytes = string

definition quote :: char where
  "quote = CHR 0x27"

definition newline :: char where
  "newline = CHR 0x0A"

text \<open>
  The exceptions the program can meet. \<open>ValueError\<close>, \<open>OperationalError\<close> and
  \<open>OSError\<close> (any error of \<open>open\<close> or \<open>read\<close> other than a missing file, such as
  a denied permission or a directory) carry their message, \<open>FileNotFoundError\<close> the
  file name, \<open>OtherError\<close> the name of any other exception class.
\<close>

datatype py_error =
    IndexError
  | ValueError str
  | TypeError
  | UnicodeDecodeError
  | FileNotFoundError str
  | OSError str
  | OperationalError str
  | OtherError str

text \<open>
  What a call does: it returns a value, raises, or never returns (a shell command that
  does not exit, for instance).
\<close>

datatype 'a outcome = Done 'a | Fault py_error | Hang

subsection \<open>Decimal rendering of integers, as \<open>str(int)\<close> does\<close>

definition digit :: "nat \<Rightarrow> char" where
  "digit d = ''0123456789'' ! d"

fun str_nat :: "nat \<Rightarrow> str" where
  "str_nat n = (if n < 10 then [digit n] else str_nat (n div 10) @ [digit (n mod 10)])"

declare str_nat.simps [simp del]

definition str_int :: "int \<Rightarrow> str" where
  "str_int i = (if i < 0 then CHR ''-'' # str_nat (nat (- i)) else str_nat (nat i))"

section \<open>The standalone script \<open>test_code.py\<close>\<close>

text \<open>
  \<^verbatim>\<open>
  def process_data(list_a, list_b):
      for i in range(len(list_a)):
          item_a = list_a[i]
          item_b = list_b[i]
          print(f"Index {i}: {item_a} - {item_b}")
  \<close>
  The model returns the lines printed so far and the fault that ended the loop, if any.
  The index \<open>i\<close> is never negative, so \<open>list_b[i]\<close> raises \<open>IndexError\<close> exactly
  when \<open>i\<close> is not below \<open>len(list_b)\<close>; \<open>list_a[i]\<close> is always in range. The
  rendering of the items by the f-string (their \<open>str\<close>) is the parameters \<open>fa\<close>, \<open>fb\<close>.
\<close>

definition index_line :: "nat \<Rightarrow> str \<Rightarrow> str \<Rightarrow> str" where
  "index_line i sa sb = ''Index '' @ str_nat i @ '': '' @ sa @ '' - '' @ sb"

function process_from ::
  "('a \<Rightarrow> str) \<Rightarrow> ('b \<Rightarrow> str) \<Rightarrow> 'a list \<Rightarrow> 'b list \<Rightarrow> nat \<Rightarrow> str list
     \<Rightarrow> str list \<times> py_error option" where
  "process_from fa fb list_a list_b i printed =
     (if i < length list_a then
        (if i < length list_b then
           process_from fa fb list_a list_b (Suc i)
             (printed @ [index_line i (fa (list_a ! i)) (fb (list_b ! i))])
         else (printed, Some IndexError))
      else (printed, None))"
  by pat_completeness auto
termination
  by (relation "measure (\<lambda>(fa, fb, list_a, list_b, i, printed). length list_a - i)") auto

declare process_from.simps [simp del]

definition process_data ::
  "('a \<Rightarrow> str) \<Rightarrow> ('b \<Rightarrow> str) \<Rightarrow> 'a list \<Rightarrow> 'b list \<Rightarrow> str list \<times> py_error option" where
  "process_data fa fb list_a list_b = process_from fa fb list_a list_b 0 []"

text \<open>The top-level call \<^verbatim>\<open>process_data([1, 2], ["apple"])\<close>.\<close>

definition script :: "str list \<times> py_error option" where
  "script = process_data str_int (\<lambda>s. s) [1, 2] [''apple'']"

section \<open>The web service \<open>app.py\<close>: data\<close>

subsection \<open>Python objects and JSON documents\<close>

text \<open>
  The Python objects that reach the handlers: SQLite column values (\<open>None\<close>, \<open>int\<close>,
  \<open>float\<close>, \<open>str\<close>, \<open>bytes\<close>) and what \<open>yaml.load\<close> builds with the unrestricted
  loader, which includes sets and instances of arbitrary classes.
  \<^item> A \<open>float\<close> is given by its \<open>repr\<close>: the shortest decimal text that reads back as
    the same float, and \<open>nan\<close>, \<open>inf\<close>, \<open>-inf\<close> for the three that are not finite.
  \<^item> A mapping is the list of its items; any object can be a key.
  \<^item> The instances that Flask's JSON provider knows how to encode are kept apart: a
    \<open>date\<close> or \<open>datetime\<close> is given by its HTTP date text (what \<open>http_date\<close> returns
    for it), a \<open>Decimal\<close> and a \<open>UUID\<close> by their \<open>str\<close>, an instance of a dataclass
    by its fields, and an object with an \<open>__html__\<close> method by the text that method
    returns. \<open>PObject\<close>, with the class name, is an instance of any other class.
  \<^item> \<open>PCyclic\<close> is a list or mapping that contains itself, which YAML anchors and
    aliases can build.
\<close>

datatype pyval =
    PNone
  | PBool bool
  | PInt int
  | PFloat str
  | PStr str
  | PBytes bytes
  | PList "pyval list"
  | PTuple "pyval list"
  | PDict "(pyval \<times> pyval) list"
  | PSet "pyval list"
  | PDate str
  | PDecimal str
  | PUUID str
  | PDataclass "(str \<times> pyval) list"
  | PHtml str
  | PObject str
  | PCyclic

text \<open>A JSON document; a number that comes from a float keeps its text.\<close>

datatype json =
    JNull
  | JBool bool
  | JInt int
  | JFloat str
  | JStr str
  | JArr "json list"
  | JObj "(str \<times> json) list"

text \<open>
  How JSON is written for a float: its \<open>repr\<close>, except for the three values that are
  not finite.
\<close>

definition json_float :: "str \<Rightarrow> str" where
  "json_float r =
     (if r = ''nan'' then ''NaN''
      else if r = ''inf'' then ''Infinity''
      else if r = ''-inf'' then ''-Infinity''
      else r)"

text \<open>
  The key of a JSON object for a key of a mapping: a \<open>str\<close> is taken as it is, a
  number, a boolean and \<open>None\<close> are written as JSON writes them, and any other key is
  refused.
\<close>

fun key_text :: "pyval \<Rightarrow> str option" where
  "key_text (PStr s) = Some s"
| "key_text (PInt i) = Some (str_int i)"
| "key_text (PFloat r) = Some (json_float r)"
| "key_text (PBool b) = Some (if b then ''true'' else ''false'')"
| "key_text PNone = Some ''null''"
| "key_text _ = None"

fun is_str_key :: "pyval \<Rightarrow> bool" where
  "is_str_key (PStr s) = True"
| "is_str_key _ = False"

fun is_num_key :: "pyval \<Rightarrow> bool" where
  "is_num_key (PInt i) = True"
| "is_num_key (PFloat r) = True"
| "is_num_key (PBool b) = True"
| "is_num_key _ = False"

text \<open>
  Flask's provider sorts the items of a mapping by key before it writes them. Sorting
  two or more keys compares them, and Python compares strings with strings and numbers
  with numbers only: any other mix raises \<open>TypeError\<close>.
\<close>

definition keys_sortable :: "pyval list \<Rightarrow> bool" where
  "keys_sortable ks \<longleftrightarrow> length ks \<le> 1 \<or> list_all is_str_key ks \<or> list_all is_num_key ks"

text \<open>
  \<open>jsonify(obj)\<close>, that is \<open>json.dumps\<close> with the \<open>default\<close> hook of Flask's provider:
  \<^verbatim>\<open>
  def _default(o):
      if isinstance(o, date): return http_date(o)
      if isinstance(o, (decimal.Decimal, uuid.UUID)): return str(o)
      if dataclasses and dataclasses.is_dataclass(o): return dataclasses.asdict(o)
      if hasattr(o, "__html__"): return str(o.__html__())
      raise TypeError(...)
  \<close>
  Lists and tuples become arrays, mappings become objects, bytes, sets and instances of
  other classes raise \<open>TypeError\<close>, and a container that contains itself raises
  \<open>ValueError\<close>. The result is the JSON document, with the items of an object in the
  order of the mapping; its rendering as text is Flask's.
\<close>

fun jsonify :: "pyval \<Rightarrow> py_error + json"
  and jsonify_list :: "pyval list \<Rightarrow> py_error + json list"
  and jsonify_items :: "(pyval \<times> pyval) list \<Rightarrow> py_error + (str \<times> json) list"
  and jsonify_fields :: "(str \<times> pyval) list \<Rightarrow> py_error + (str \<times> json) list" where
  "jsonify PNone = Inr JNull"
| "jsonify (PBool b) = Inr (JBool b)"
| "jsonify (PInt i) = Inr (JInt i)"
| "jsonify (PFloat r) = Inr (JFloat (json_float r))"
| "jsonify (PStr s) = Inr (JStr s)"
| "jsonify (PBytes b) = Inl TypeError"
| "jsonify (PList xs) = (case jsonify_list xs of Inl e \<Rightarrow> Inl e | Inr js \<Rightarrow> Inr (JArr js))"
| "jsonify (PTuple xs) = (case jsonify_list xs of Inl e \<Rightarrow> Inl e | Inr js \<Rightarrow> Inr (JArr js))"
| "jsonify (PDict kvs) =
     (if keys_sortable (map fst kvs) then
        (case jsonify_items kvs of Inl e \<Rightarrow> Inl e | Inr js \<Rightarrow> Inr (JObj js))
      else Inl TypeError)"
| "jsonify (PSet xs) = Inl TypeError"
| "jsonify (PDate d) = Inr (JStr d)"
| "jsonify (PDecimal s) = Inr (JStr s)"
| "jsonify (PUUID s) = Inr (JStr s)"
| "jsonify (PDataclass fs) =
     (case jsonify_fields fs of Inl e \<Rightarrow> Inl e | Inr js \<Rightarrow> Inr (JObj js))"
| "jsonify (PHtml s) = Inr (JStr s)"
| "jsonify (PObject c) = Inl TypeError"
| "jsonify PCyclic = Inl (ValueError ''Circular reference detected'')"
| "jsonify_list [] = Inr []"
| "jsonify_list (x # xs) =
     (case jsonify x of Inl e \<Rightarrow> Inl e
      | Inr j \<Rightarrow> (case jsonify_list xs of Inl e \<Rightarrow> Inl e | Inr js \<Rightarrow> Inr (j # js)))"
| "jsonify_items [] = Inr []"
| "jsonify_items ((k, v) # kvs) =
     (case key_text k of
        None \<Rightarrow> Inl TypeError
      | Some t \<Rightarrow>
          (case jsonify v of Inl e \<Rightarrow> Inl e
           | Inr j \<Rightarrow>
               (case jsonify_items kvs of Inl e \<Rightarrow> Inl e | Inr js \<Rightarrow> Inr ((t, j) # js))))"
| "jsonify_fields [] = Inr []"
| "jsonify_fields ((k, v) # kvs) =
     (case jsonify v of Inl e \<Rightarrow> Inl e
      | Inr j \<Rightarrow> (case jsonify_fields kvs of Inl e \<Rightarrow> Inl e | Inr js \<Rightarrow> Inr ((k, j) # js)))"


subsection \<open>Decoding bytes as UTF-8\<close>

text \<open>
  \<open>bytes.decode("utf-8")\<close> is strict: it raises \<open>UnicodeDecodeError\<close> unless the bytes
  are well-formed UTF-8 (no overlong forms, no surrogates, nothing above U+10FFFF). As a
  \<open>str\<close> is represented by its UTF-8 encoding, a successful decoding returns the bytes.
\<close>

definition cont :: "char \<Rightarrow> bool" where
  "cont c \<longleftrightarrow> 128 \<le> (of_char c :: nat) \<and> (of_char c :: nat) \<le> 191"

definition between :: "nat \<Rightarrow> char \<Rightarrow> nat \<Rightarrow> bool" where
  "between lo c hi \<longleftrightarrow> lo \<le> (of_char c :: nat) \<and> (of_char c :: nat) \<le> hi"

fun utf8_valid :: "bytes \<Rightarrow> bool" where
  "utf8_valid [] = True"
| "utf8_valid (a # r) =
     (if between 0 a 127 then utf8_valid r
      else if between 194 a 223 then
        (case r of b # r' \<Rightarrow> cont b \<and> utf8_valid r' | _ \<Rightarrow> False)
      else if between 224 a 239 then
        (case r of b # c # r' \<Rightarrow>
           (if between 224 a 224 then between 160 b 191
            else if between 237 a 237 then between 128 b 159
            else cont b) \<and> cont c \<and> utf8_valid r'
         | _ \<Rightarrow> False)
      else if between 240 a 244 then
        (case r of b # c # d # r' \<Rightarrow>
           (if between 240 a 240 then between 144 b 191
            else if between 244 a 244 then between 128 b 143
            else cont b) \<and> cont c \<and> cont d \<and> utf8_valid r'
         | _ \<Rightarrow> False)
      else False)"

definition utf8_decode :: "bytes \<Rightarrow> py_error + str" where
  "utf8_decode bs = (if utf8_valid bs then Inr bs else Inl UnicodeDecodeError)"

subsection \<open>The SQLite store\<close>

text \<open>
  A database maps table names to tables; a table keeps the text of its \<open>CREATE\<close>
  statement (as SQLite does in its schema table) and its rows.
\<close>

record table =
  tbl_sql :: str
  tbl_rows :: "pyval list list"

type_synonym database = "(str \<times> table) list"

datatype db_event = Connect nat | Execute nat str | Commit nat | Close nat

datatype node = File bytes | Unreadable py_error

text \<open>
  The world outside the process: the store file \<open>test.db\<close> (\<open>None\<close> when the file
  does not exist, otherwise the database it holds), what \<open>open\<close> finds at each path,
  and the SQLite connections of the process (the handles that are open, the next fresh
  handle, and the log of what was done on them).
\<close>

record world =
  store :: "database option"
  files :: "(str \<times> node) list"
  open_conns :: "nat list"
  next_conn :: nat
  db_log :: "db_event list"

text \<open>
  A connection object: its handle, and the database as changed by a transaction that is
  not committed yet (\<open>None\<close> when no transaction is open).
\<close>

record conn =
  conn_id :: nat
  pending :: "database option"

record proc =
  returncode :: int
  out :: bytes
  err :: bytes

datatype body = Text str | Json json

record response =
  status :: nat
  content :: body

text \<open>
  What the program calls and does not define. \<open>sh cmd\<close> is \<open>/bin/sh -c cmd\<close> run to its
  end with its two output streams collected; it can change the world. \<open>sqlite_select\<close>
  is SQLite on a \<open>SELECT\<close> statement outside the fragment modelled below (SQLite
  evaluates a \<open>SELECT\<close> without writing to the database, so it returns rows or fails),
  \<open>sqlite_other\<close> is SQLite on any other statement. \<open>yaml_load\<close> is \<open>yaml.load\<close> with
  \<open>Loader=yaml.Loader\<close>, which may call arbitrary constructors and so change the world.
  \<open>repr\<close> is Python's \<open>repr\<close> of a string and \<open>exc_message\<close> the \<open>str\<close> of an
  exception whose text is not modelled.
\<close>

record env =
  sh :: "str \<Rightarrow> world \<Rightarrow> world \<times> proc outcome"
  sqlite_select :: "database \<Rightarrow> str \<Rightarrow> pyval list list outcome"
  sqlite_other :: "conn \<Rightarrow> str \<Rightarrow> world \<Rightarrow> world \<times> (conn \<times> pyval list list) outcome"
  yaml_load :: "str \<Rightarrow> world \<Rightarrow> world \<times> pyval outcome"
  repr :: "str \<Rightarrow> str"
  exc_message :: "py_error \<Rightarrow> str"

section \<open>The web service \<open>app.py\<close>: operations\<close>

subsection \<open>Request parameters\<close>

text \<open>
  \<open>request.args.get(key, default)\<close> and \<open>request.json.get(key, default)\<close>: the first
  value stored under the key, or the default. The query string is the list of its
  parameters; the parsed JSON body of \<open>/run\<close> is the list of the items of the dict,
  taken to be an object whose values are strings.
\<close>

definition args_get :: "(str \<times> str) list \<Rightarrow> str \<Rightarrow> str \<Rightarrow> str" where
  "args_get args key dflt = (case map_of args key of None \<Rightarrow> dflt | Some v \<Rightarrow> v)"

subsection \<open>The sqlite3 connection\<close>

definition DB_PATH :: str where
  "DB_PATH = ''test.db''"

text \<open>
  \<open>sqlite3.connect(DB_PATH)\<close> creates the file, holding an empty database, when it does
  not exist. The path is either absent or a database file, so connecting succeeds.
\<close>

definition connect :: "world \<Rightarrow> world \<times> conn" where
  "connect w =
     (let h = next_conn w in
      (w\<lparr>store := Some (case store w of None \<Rightarrow> [] | Some db \<Rightarrow> db),
         open_conns := h # open_conns w,
         next_conn := Suc h,
         db_log := db_log w @ [Connect h]\<rparr>,
       \<lparr>conn_id = h, pending = None\<rparr>))"

definition get_db :: "world \<Rightarrow> world \<times> conn" where
  "get_db w = connect w"

text \<open>The database a connection sees: its open transaction, or else the store.\<close>

definition view :: "conn \<Rightarrow> world \<Rightarrow> database" where
  "view c w =
     (case pending c of Some db \<Rightarrow> db
      | None \<Rightarrow> (case store w of Some db \<Rightarrow> db | None \<Rightarrow> []))"

text \<open>The three statements of the program.\<close>

definition create_users :: str where
  "create_users = ''CREATE TABLE users (id TEXT, username TEXT)''"

definition insert_seed :: str where
  "insert_seed = ''INSERT INTO users VALUES ('' @ [quote] @ ''1'' @ [quote] @ '', ''
     @ [quote] @ ''alice'' @ [quote] @ ''), ('' @ [quote] @ ''2'' @ [quote] @ '', ''
     @ [quote] @ ''bob'' @ [quote] @ '')''"

definition select_prefix :: str where
  "select_prefix = ''SELECT id, username FROM users WHERE id = ''"

definition seed_rows :: "pyval list list" where
  "seed_rows = [[PStr ''1'', PStr ''alice''], [PStr ''2'', PStr ''bob'']]"

text \<open>
  The fragment of SQL that is given a meaning here. A string literal starts and ends with
  a single quote and writes a quote inside as two quotes. \<open>sql_literal_body cs\<close> reads
  the characters after the opening quote and returns the string denoted when the literal
  ends exactly at the end of the input.
\<close>

fun sql_literal_body :: "str \<Rightarrow> str option" where
  "sql_literal_body [] = None"
| "sql_literal_body (c # cs) =
     (if c = CHR 0x00 then None
      else if c = quote then
        (case cs of [] \<Rightarrow> Some []
         | d # ds \<Rightarrow> if d = quote then map_option ((#) quote) (sql_literal_body ds) else None)
      else map_option ((#) c) (sql_literal_body cs))"

fun strip_prefix :: "str \<Rightarrow> str \<Rightarrow> str option" where
  "strip_prefix [] s = Some s"
| "strip_prefix (p # ps) [] = None"
| "strip_prefix (p # ps) (c # cs) = (if p = c then strip_prefix ps cs else None)"

text \<open>
  \<open>select_by_id q\<close> is \<open>Some v\<close> when \<open>q\<close> is \<open>SELECT id, username FROM users WHERE id =\<close>
  followed by one string literal denoting \<open>v\<close>, and nothing else.
\<close>

definition select_by_id :: "str \<Rightarrow> str option" where
  "select_by_id q =
     (case strip_prefix select_prefix q of
        None \<Rightarrow> None
      | Some [] \<Rightarrow> None
      | Some (c # cs) \<Rightarrow> if c = quote then sql_literal_body cs else None)"

definition is_select :: "str \<Rightarrow> bool" where
  "is_select q \<longleftrightarrow> strip_prefix ''SELECT '' q \<noteq> None"

definition row_id_is :: "str \<Rightarrow> pyval list \<Rightarrow> bool" where
  "row_id_is v r = (case r of [] \<Rightarrow> False | x # _ \<Rightarrow> x = PStr v)"

text \<open>
  A \<open>SELECT\<close> statement on a database. Inside the fragment, on a \<open>users\<close> table created
  by the program's own \<open>CREATE\<close> statement, the rows whose \<open>id\<close> is the text \<open>v\<close> are
  returned in table order; without a \<open>users\<close> table SQLite reports that there is none.
\<close>

definition run_select :: "env \<Rightarrow> database \<Rightarrow> str \<Rightarrow> pyval list list outcome" where
  "run_select env db q =
     (case select_by_id q of
        None \<Rightarrow> sqlite_select env db q
      | Some v \<Rightarrow>
          (case map_of db ''users'' of
             None \<Rightarrow> Fault (OperationalError ''no such table: users'')
           | Some t \<Rightarrow>
               if tbl_sql t = create_users then Done (filter (row_id_is v) (tbl_rows t))
               else sqlite_select env db q))"

text \<open>
  \<open>conn.execute(q)\<close>, with the transaction handling of the \<open>sqlite3\<close> module: a
  \<open>SELECT\<close> changes nothing; \<open>CREATE TABLE\<close> opens no transaction, so outside one it
  is written to the store at once; \<open>INSERT\<close> opens a transaction, whose changes stay
  with the connection until \<open>commit\<close>.
\<close>

definition conn_execute ::
  "env \<Rightarrow> conn \<Rightarrow> str \<Rightarrow> world \<Rightarrow> world \<times> (conn \<times> pyval list list) outcome" where
  "conn_execute env c q w0 =
     (let w = w0\<lparr>db_log := db_log w0 @ [Execute (conn_id c) q]\<rparr>; db = view c w in
      if is_select q then
        (case run_select env db q of
           Done rs \<Rightarrow> (w, Done (c, rs))
         | Fault e \<Rightarrow> (w, Fault e)
         | Hang \<Rightarrow> (w, Hang))
      else if q = create_users then
        (case map_of db ''users'' of
           Some t \<Rightarrow> (w, Fault (OperationalError ''table users already exists''))
         | None \<Rightarrow>
             (let db' = db @ [(''users'', \<lparr>tbl_sql = create_users, tbl_rows = []\<rparr>)] in
              case pending c of
                None \<Rightarrow> (w\<lparr>store := Some db'\<rparr>, Done (c, []))
              | Some _ \<Rightarrow> (w, Done (c\<lparr>pending := Some db'\<rparr>, []))))
      else if q = insert_seed then
        (case map_of db ''users'' of
           None \<Rightarrow> (w, Fault (OperationalError ''no such table: users''))
         | Some t \<Rightarrow>
             if tbl_sql t = create_users then
               (w, Done (c\<lparr>pending :=
                   Some (map (\<lambda>(n, t'). if n = ''users'' then (n, t\<lparr>tbl_rows := tbl_rows t @ seed_rows\<rparr>) else (n, t')) db)\<rparr>, []))
             else sqlite_other env c q w)
      else sqlite_other env c q w)"

definition conn_commit :: "conn \<Rightarrow> world \<Rightarrow> world \<times> conn" where
  "conn_commit c w0 =
     (let w = w0\<lparr>db_log := db_log w0 @ [Commit (conn_id c)]\<rparr> in
      case pending c of
        None \<Rightarrow> (w, c)
      | Some db \<Rightarrow> (w\<lparr>store := Some db\<rparr>, c\<lparr>pending := None\<rparr>))"

text \<open>\<open>conn.close()\<close> drops a transaction that was not committed.\<close>

definition conn_close :: "conn \<Rightarrow> world \<Rightarrow> world" where
  "conn_close c w =
     w\<lparr>open_conns := remove1 (conn_id c) (open_conns w),
       db_log := db_log w @ [Close (conn_id c)]\<rparr>"

subsection \<open>\<open>GET /user\<close>\<close>

text \<open>
  \<^verbatim>\<open>
  user_id = request.args.get("id", "")
  query = f"SELECT id, username FROM users WHERE id = '{user_id}'"
  conn = get_db()
  try:
      rows = conn.execute(query).fetchall()
      return jsonify({"rows": rows})
  finally:
      conn.close()
  \<close>
\<close>

definition user_query :: "str \<Rightarrow> str" where
  "user_query user_id = select_prefix @ [quote] @ user_id @ [quote]"

definition get_user :: "env \<Rightarrow> (str \<times> str) list \<Rightarrow> world \<Rightarrow> world \<times> response outcome" where
  "get_user env args w =
     (let user_id = args_get args ''id'' [];
          query = user_query user_id;
          (w1, conn) = get_db w
      in case conn_execute env conn query w1 of
           (w2, Hang) \<Rightarrow> (w2, Hang)
         | (w2, Fault e) \<Rightarrow> (conn_close conn w2, Fault e)
         | (w2, Done (conn', rows)) \<Rightarrow>
             (case jsonify (PDict [(PStr ''rows'', PList (map PTuple rows))]) of
                Inl e \<Rightarrow> (conn_close conn' w2, Fault e)
              | Inr j \<Rightarrow> (conn_close conn' w2, Done \<lparr>status = 200, content = Json j\<rparr>)))"

subsection \<open>\<open>POST /run\<close>\<close>

text \<open>
  \<^verbatim>\<open>
  cmd = request.json.get("cmd", "echo Hello")
  proc = subprocess.Popen(cmd, shell=True, stdout=subprocess.PIPE, stderr=subprocess.PIPE)
  out, err = proc.communicate()
  if proc.returncode != 0:
      return (err.decode("utf-8"), 500)
  return out.decode("utf-8")
  \<close>
  \<open>Popen\<close> refuses a command with a NUL character before anything is spawned.
\<close>

definition popen_communicate :: "env \<Rightarrow> str \<Rightarrow> world \<Rightarrow> world \<times> proc outcome" where
  "popen_communicate env cmd w =
     (if CHR 0x00 \<in> set cmd then (w, Fault (ValueError ''embedded null byte''))
      else sh env cmd w)"

definition run :: "env \<Rightarrow> (str \<times> str) list \<Rightarrow> world \<Rightarrow> world \<times> response outcome" where
  "run env json_body w =
     (let cmd = args_get json_body ''cmd'' ''echo Hello'' in
      case popen_communicate env cmd w of
        (w', Hang) \<Rightarrow> (w', Hang)
      | (w', Fault e) \<Rightarrow> (w', Fault e)
      | (w', Done p) \<Rightarrow>
          if returncode p \<noteq> 0 then
            (case utf8_decode (err p) of
               Inl e \<Rightarrow> (w', Fault e)
             | Inr s \<Rightarrow> (w', Done \<lparr>status = 500, content = Text s\<rparr>))
          else
            (case utf8_decode (out p) of
               Inl e \<Rightarrow> (w', Fault e)
             | Inr s \<Rightarrow> (w', Done \<lparr>status = 200, content = Text s\<rparr>)))"

subsection \<open>\<open>GET /read\<close>\<close>

text \<open>
  \<^verbatim>\<open>
  filename = request.args.get("file", "README.md")
  try:
      with open(filename, "r", encoding="utf-8") as f:
          return f.read()
  except Exception as e:
      return (str(e), 404)
  \<close>
  Reading in text mode decodes the bytes and turns every line ending (CR LF or CR alone)
  into LF.
\<close>

fun universal_newlines :: "str \<Rightarrow> str" where
  "universal_newlines [] = []"
| "universal_newlines (c # cs) =
     (if c = CHR 0x0D then
        (case cs of
           [] \<Rightarrow> [newline]
         | d # ds \<Rightarrow>
             if d = newline then newline # universal_newlines ds
             else newline # universal_newlines cs)
      else c # universal_newlines cs)"

definition open_read :: "world \<Rightarrow> str \<Rightarrow> py_error + str" where
  "open_read w filename =
     (if CHR 0x00 \<in> set filename then Inl (ValueError ''embedded null byte'')
      else case map_of (files w) filename of
             None \<Rightarrow> Inl (FileNotFoundError filename)
           | Some (Unreadable e) \<Rightarrow> Inl e
           | Some (File bs) \<Rightarrow>
               (case utf8_decode bs of
                  Inl e \<Rightarrow> Inl e
                | Inr s \<Rightarrow> Inr (universal_newlines s)))"

text \<open>\<open>str(e)\<close> of an exception.\<close>

definition exc_str :: "env \<Rightarrow> py_error \<Rightarrow> str" where
  "exc_str env e =
     (case e of
        ValueError m \<Rightarrow> m
      | OSError m \<Rightarrow> m
      | FileNotFoundError f \<Rightarrow> ''[Errno 2] No such file or directory: '' @ repr env f
      | _ \<Rightarrow> exc_message env e)"

definition read_file :: "env \<Rightarrow> (str \<times> str) list \<Rightarrow> world \<Rightarrow> world \<times> response outcome" where
  "read_file env args w =
     (let filename = args_get args ''file'' ''README.md'' in
      case open_read w filename of
        Inr s \<Rightarrow> (w, Done \<lparr>status = 200, content = Text s\<rparr>)
      | Inl e \<Rightarrow> (w, Done \<lparr>status = 404, content = Text (exc_str env e)\<rparr>))"

subsection \<open>\<open>POST /config\<close>\<close>

text \<open>
  \<^verbatim>\<open>
  body = request.data.decode("utf-8")
  cfg = yaml.load(body, Loader=yaml.Loader)
  return jsonify(cfg)
  \<close>
\<close>

definition load_config :: "env \<Rightarrow> bytes \<Rightarrow> world \<Rightarrow> world \<times> response outcome" where
  "load_config env data w =
     (case utf8_decode data of
        Inl e \<Rightarrow> (w, Fault e)
      | Inr body \<Rightarrow>
          (case yaml_load env body w of
             (w', Hang) \<Rightarrow> (w', Hang)
           | (w', Fault e) \<Rightarrow> (w', Fault e)
           | (w', Done cfg) \<Rightarrow>
               (case jsonify cfg of
                  Inl e \<Rightarrow> (w', Fault e)
                | Inr j \<Rightarrow> (w', Done \<lparr>status = 200, content = Json j\<rparr>))))"

subsection \<open>Bootstrap\<close>

text \<open>
  \<^verbatim>\<open>
  if not Path(DB_PATH).exists():
      conn = sqlite3.connect(DB_PATH)
      conn.execute("CREATE TABLE users (id TEXT, username TEXT)")
      conn.execute("INSERT INTO users VALUES ('1', 'alice'), ('2', 'bob')")
      conn.commit()
      conn.close()
  \<close>
  There is no \<open>try\<close> here: a fault ends the bootstrap where it happens.
\<close>

definition bootstrap :: "env \<Rightarrow> world \<Rightarrow> world \<times> unit outcome" where
  "bootstrap env w =
     (if store w \<noteq> None then (w, Done ())
      else
        (let (w1, conn) = connect w in
         case conn_execute env conn create_users w1 of
           (w2, Hang) \<Rightarrow> (w2, Hang)
         | (w2, Fault e) \<Rightarrow> (w2, Fault e)
         | (w2, Done (c2, _)) \<Rightarrow>
             (case conn_execute env c2 insert_seed w2 of
                (w3, Hang) \<Rightarrow> (w3, Hang)
              | (w3, Fault e) \<Rightarrow> (w3, Fault e)
              | (w3, Done (c3, _)) \<Rightarrow>
                  (let (w4, c4) = conn_commit c3 w3 in (conn_close c4 w4, Done ())))))"

text \<open>The rows of the \<open>users\<close> table in the store, when there is such a table.\<close>

definition users_table :: "world \<Rightarrow> pyval list list option" where
  "users_table w =
     (case store w of
        None \<Rightarrow> None
      | Some db \<Rightarrow> map_option tbl_rows (map_of db ''users''))"

section \<open>A concrete environment\<close>

text \<open>
  To evaluate the handlers at concrete requests, \<open>sample_env\<close> fixes what the shell,
  SQLite and PyYAML answer on the inputs used below: \<open>echo Hello\<close> prints \<open>Hello\<close>
  and a line feed, \<open>exit 3\<close> exits with code 3, \<open>printf '\377'\<close> prints the single
  byte \<open>0xFF\<close>, \<open>rm test.db\<close> removes the store file; the injected query
  \<open>... WHERE id = '1' OR '1'='1'\<close> returns every row of \<open>users\<close>; the document
  \<open>!!set {a, b}\<close> loads as the set of \<open>a\<close> and \<open>b\<close>, the document \<open>a: b\<close> as a
  mapping, \<open>2001-12-14\<close> as a date, \<open>1.5\<close> as a float, and \<open>[\<close> is not a document;
  the message of \<open>UnicodeDecodeError\<close> is the one Python gives for the single byte
  \<open>0xFF\<close>. On every other input its answers are placeholders; the general theorems do
  not use it.
\<close>

definition printf_ff :: str where
  "printf_ff = ''printf '' @ [quote, CHR 0x5C] @ ''377'' @ [quote]"

definition sample_sh :: "str \<Rightarrow> world \<Rightarrow> world \<times> proc outcome" where
  "sample_sh cmd w =
     (if cmd = ''echo Hello'' then
        (w, Done \<lparr>returncode = 0, out = ''Hello'' @ [newline], err = []\<rparr>)
      else if cmd = ''exit 3'' then
        (w, Done \<lparr>returncode = 3, out = [], err = []\<rparr>)
      else if cmd = printf_ff then
        (w, Done \<lparr>returncode = 0, out = [CHR 0xFF], err = []\<rparr>)
      else if cmd = ''rm test.db'' \<and> store w \<noteq> None then
        (w\<lparr>store := None, files := filter (\<lambda>(p, n). p \<noteq> DB_PATH) (files w)\<rparr>,
         Done \<lparr>returncode = 0, out = [], err = []\<rparr>)
      else (w, Done \<lparr>returncode = 127, out = [], err = ''sh: not found'' @ [newline]\<rparr>))"

definition inject_all :: str where
  "inject_all = ''1'' @ [quote] @ '' OR '' @ [quote] @ ''1'' @ [quote] @ ''='' @ [quote] @ ''1''"

definition sample_select :: "database \<Rightarrow> str \<Rightarrow> pyval list list outcome" where
  "sample_select db q =
     (if q = user_query inject_all then
        (case map_of db ''users'' of
           None \<Rightarrow> Fault (OperationalError ''no such table: users'')
         | Some t \<Rightarrow> Done (tbl_rows t))
      else Fault (OperationalError ''not evaluated''))"

definition sample_yaml :: "str \<Rightarrow> world \<Rightarrow> world \<times> pyval outcome" where
  "sample_yaml doc w =
     (if doc = ''!!set {a, b}'' then (w, Done (PSet [PStr ''a'', PStr ''b'']))
      else if doc = ''2001-12-14'' then (w, Done (PDate ''Fri, 14 Dec 2001 00:00:00 GMT''))
      else if doc = ''1.5'' then (w, Done (PFloat ''1.5''))
      else if doc = ''a: b'' then (w, Done (PDict [(PStr ''a'', PStr ''b'')]))
      else if doc = ''['' then (w, Fault (OtherError ''ParserError''))
      else (w, Fault (OtherError ''not evaluated'')))"

definition sample_env :: env where
  "sample_env =
     \<lparr>sh = sample_sh,
      sqlite_select = sample_select,
      sqlite_other = (\<lambda>c q w. (w, Fault (OperationalError ''not evaluated''))),
      yaml_load = sample_yaml,
      repr = (\<lambda>s. [quote] @ s @ [quote]),
      exc_message =
        (\<lambda>e. case e of
           OperationalError m \<Rightarrow> m
         | OtherError m \<Rightarrow> m
         | UnicodeDecodeError \<Rightarrow>
             [quote] @ ''utf-8'' @ [quote] @ '' codec can'' @ [quote] @
             ''t decode byte 0xff in position 0: invalid start byte''
         | _ \<Rightarrow> [])\<rparr>"

text \<open>A world without the store file, and the world with the store as bootstrap leaves it.\<close>

definition fresh_world :: world where
  "fresh_world =
     \<lparr>store = None, files = [(''README.md'', File ''demo'')], open_conns = [],
      next_conn = 0, db_log = []\<rparr>"

definition seeded_world :: world where
  "seeded_world =
     \<lparr>store = Some [(''users'', \<lparr>tbl_sql = create_users, tbl_rows = seed_rows\<rparr>)],
      files = [(''README.md'', File ''demo'')], open_conns = [],
      next_conn = 1, db_log = []\<rparr>"

text \<open>
  A world with four paths: a text file, a file with a CR LF line ending, a file that is
  not UTF-8, and a file that the process may not open.
\<close>

definition files_world :: world where
  "files_world =
     seeded_world\<lparr>files :=
       [(''README.md'', File ''demo''),
        (''crlf.txt'', File (''a'' @ [CHR 0x0D, newline] @ ''b'')),
        (''bad.bin'', File [CHR 0xFF]),
        (''secret.txt'',
         Unreadable (OSError (''[Errno 13] Permission denied: '' @ [quote] @ ''secret.txt''
           @ [quote])))]\<rparr>"

section \<open>Auxiliary notions for the statements\<close>

text \<open>
  The world after a request to \<open>/user\<close> that ran the statement \<open>q\<close> and returned
  or raised: the store file exists, one more handle has been used, and the log has the
  connection opened, the statement executed and the connection closed.
\<close>

definition closed_world :: "world \<Rightarrow> str \<Rightarrow> world" where
  "closed_world w q =
     w\<lparr>store := Some (case store w of None \<Rightarrow> [] | Some db \<Rightarrow> db),
       next_conn := Suc (next_conn w),
       db_log := db_log w @ [Connect (next_conn w), Execute (next_conn w) q, Close (next_conn w)]\<rparr>"

text \<open>The store holds the \<open>users\<close> table as bootstrap creates it.\<close>

definition seeded :: "world \<Rightarrow> bool" where
  "seeded w \<longleftrightarrow>
     (case store w of
        None \<Rightarrow> False
      | Some db \<Rightarrow> map_of db ''users'' = Some \<lparr>tbl_sql = create_users, tbl_rows = seed_rows\<rparr>)"

section \<open>Properties of the script\<close>

lemma process_from_short:
  "length list_b < length list_a \<Longrightarrow> i \<le> length list_b \<Longrightarrow>
   process_from fa fb list_a list_b i printed =
     (printed @ map (\<lambda>k. index_line k (fa (list_a ! k)) (fb (list_b ! k))) [i..<length list_b],
      Some IndexError)"
proof (induction fa fb list_a list_b i printed rule: process_from.induct)
  case (1 fa fb list_a list_b i printed)
  show ?case
  proof (cases "i < length list_b")
    case True
    with "1.prems" have ia: "i < length list_a" by simp
    from True have step: "[i..<length list_b] = i # [Suc i..<length list_b]"
      by (simp add: upt_conv_Cons)
    from True have "Suc i \<le> length list_b" by simp
    with "1.IH" [OF ia True "1.prems"(1)] show ?thesis
      by (subst process_from.simps) (simp add: ia True step)
  next
    case False
    with "1.prems" have "i = length list_b" by simp
    with "1.prems" show ?thesis
      by (subst process_from.simps) simp
  qed
qed

text \<open>
  C9. Whenever the first list is strictly longer than the second, \<open>process_data\<close> prints
  the lines of the indices below \<open>len(list_b)\<close> and then raises \<open>IndexError\<close> at index
  \<open>len(list_b)\<close>; the script's own call \<open>process_data([1, 2], ["apple"])\<close> prints one
  line and ends in \<open>IndexError\<close>.
\<close>

theorem process_data_index_fault:
  "(length list_b < length list_a \<longrightarrow>
      process_data fa fb list_a list_b =
        (map (\<lambda>k. index_line k (fa (list_a ! k)) (fb (list_b ! k))) [0..<length list_b],
         Some IndexError))
   \<and> script = ([''Index 0: 1 - apple''], Some IndexError)"
proof (intro conjI impI)
  assume less: "length list_b < length list_a"
  show "process_data fa fb list_a list_b =
     (map (\<lambda>k. index_line k (fa (list_a ! k)) (fb (list_b ! k))) [0..<length list_b],
      Some IndexError)"
    unfolding process_data_def using process_from_short [OF less, of 0 fa fb "[]"] by simp
next
  have "process_data str_int (\<lambda>s. s) [1, 2] [''apple''] =
     (map (\<lambda>k. index_line k (str_int ([1, 2] ! k)) ([''apple''] ! k)) [0..<length [''apple'']],
      Some IndexError)"
    unfolding process_data_def
    using process_from_short [of "[''apple'']" "[1, 2 :: int]" 0 str_int "\<lambda>s. s" "[]"] by simp
  then show "script = ([''Index 0: 1 - apple''], Some IndexError)"
    by (simp add: script_def index_line_def str_int_def str_nat.simps digit_def)
qed

theorem process_data_index_fault_witness:
  "length [''x''] < length [7 :: int, 8, 9] \<and>
   process_data str_int (\<lambda>s. s) [7, 8, 9] [''x''] = ([''Index 0: 7 - x''], Some IndexError)"
  using process_data_index_fault [of "[''x'']" "[7 :: int, 8, 9]" str_int "\<lambda>s. s"]
  by (simp add: index_line_def str_int_def str_nat.simps digit_def)

section \<open>Properties of the web service\<close>

subsection \<open>The handler of \<open>/user\<close>, unfolded\<close>

lemma keys_sortable_single [simp]: "keys_sortable [k]"
  by (simp add: keys_sortable_def)

lemma is_select_user_query: "is_select (user_query user_id)"
  by (simp add: is_select_def user_query_def select_prefix_def)

lemma select_by_id_user_query:
  "select_by_id (user_query user_id) = sql_literal_body (user_id @ [quote])"
  by (simp add: select_by_id_def user_query_def select_prefix_def)

lemma get_user_unfold:
  "get_user env args w =
     (let q = user_query (args_get args ''id'' []);
          db = (case store w of None \<Rightarrow> [] | Some d \<Rightarrow> d) in
      case run_select env db q of
        Hang \<Rightarrow>
          (w\<lparr>store := Some db, open_conns := next_conn w # open_conns w,
             next_conn := Suc (next_conn w),
             db_log := db_log w @ [Connect (next_conn w), Execute (next_conn w) q]\<rparr>, Hang)
      | Fault e \<Rightarrow> (closed_world w q, Fault e)
      | Done rows \<Rightarrow>
          (closed_world w q,
           case jsonify (PDict [(PStr ''rows'', PList (map PTuple rows))]) of
             Inl e \<Rightarrow> Fault e
           | Inr j \<Rightarrow> Done \<lparr>status = 200, content = Json j\<rparr>))"
  by (simp add: get_user_def get_db_def connect_def conn_execute_def is_select_user_query
      view_def conn_close_def closed_world_def Let_def
      split: outcome.splits option.splits sum.splits)

lemma run_select_seeded:
  "seeded w \<Longrightarrow> sql_literal_body (user_id @ [quote]) = Some v \<Longrightarrow>
   run_select env (case store w of None \<Rightarrow> [] | Some d \<Rightarrow> d) (user_query user_id) =
     Done (filter (row_id_is v) seed_rows)"
  by (auto simp: seeded_def run_select_def select_by_id_user_query split: option.splits)

text \<open>
  C1. For every value of the query parameter \<open>id\<close> that contains a single quote,
  \<open>GET /user\<close> opens a connection and executes on it the statement made of the
  \<open>SELECT\<close> text, a quote, the value of \<open>id\<close> as it came and a quote: the value is
  interpolated, not escaped and not passed as a parameter, and nothing fails before the
  statement is executed. The connection is closed afterwards, unless the execution never
  returns.
\<close>

theorem get_user_executes_interpolated_query:
  "quote \<in> set (args_get args ''id'' []) \<Longrightarrow>
   db_log (fst (get_user env args w)) =
     db_log w @
     [Connect (next_conn w),
      Execute (next_conn w)
        (''SELECT id, username FROM users WHERE id = '' @ [quote] @ args_get args ''id'' [] @ [quote])] @
     (if snd (get_user env args w) = Hang then [] else [Close (next_conn w)])"
  by (simp add: get_user_unfold closed_world_def Let_def user_query_def select_prefix_def
      split: outcome.splits sum.splits)

theorem get_user_executes_interpolated_query_witness:
  "quote \<in> set (args_get [(''id'', inject_all)] ''id'' []) \<and>
   db_log (fst (get_user sample_env [(''id'', inject_all)] seeded_world)) =
     [Connect 1,
      Execute 1 (''SELECT id, username FROM users WHERE id = '' @ [quote] @ inject_all @ [quote]),
      Close 1] \<and>
   snd (get_user sample_env [(''id'', inject_all)] seeded_world) =
     Done \<lparr>status = 200, content = Json (JObj [(''rows'',
       JArr [JArr [JStr ''1'', JStr ''alice''], JArr [JStr ''2'', JStr ''bob'']])])\<rparr>"
proof -
  have q: "quote \<in> set (args_get [(''id'', inject_all)] ''id'' [])"
    by (simp add: args_get_def inject_all_def)
  have r: "snd (get_user sample_env [(''id'', inject_all)] seeded_world) =
     Done \<lparr>status = 200, content = Json (JObj [(''rows'',
       JArr [JArr [JStr ''1'', JStr ''alice''], JArr [JStr ''2'', JStr ''bob'']])])\<rparr>"
    by code_simp
  from get_user_executes_interpolated_query [OF q, of sample_env seeded_world] q r
  show ?thesis by (simp add: seeded_world_def args_get_def)
qed

lemma literal_1: "sql_literal_body (''1'' @ [quote]) = Some ''1''"
  by (simp add: quote_def)

lemma literal_empty: "sql_literal_body ([] @ [quote]) = Some []"
  by (simp add: quote_def)

text \<open>
  C3. On a store that holds the \<open>users\<close> table with the two seed rows, \<open>GET /user\<close>
  with \<open>id\<close> equal to \<open>1\<close> returns status 200 and the JSON object whose field
  \<open>rows\<close> holds the pair \<open>["1", "alice"]\<close> (and no other row).
\<close>

theorem get_user_id_1_returns_alice:
  "seeded w \<Longrightarrow> map_of args ''id'' = Some ''1'' \<Longrightarrow>
   snd (get_user env args w) =
     Done \<lparr>status = 200,
           content = Json (JObj [(''rows'', JArr [JArr [JStr ''1'', JStr ''alice'']])])\<rparr>"
proof -
  assume s: "seeded w" and a: "map_of args ''id'' = Some ''1''"
  from a have uid: "args_get args ''id'' [] = ''1''" by (simp add: args_get_def)
  have sel: "run_select env (case store w of None \<Rightarrow> [] | Some d \<Rightarrow> d) (user_query ''1'') =
      Done (filter (row_id_is ''1'') seed_rows)"
    by (rule run_select_seeded [OF s literal_1])
  have rows: "filter (row_id_is ''1'') seed_rows = [[PStr ''1'', PStr ''alice'']]"
    by (simp add: row_id_is_def seed_rows_def)
  show ?thesis
    by (simp add: get_user_unfold uid sel rows)
qed

theorem get_user_id_1_returns_alice_witness:
  "seeded (fst (bootstrap sample_env fresh_world)) \<and>
   map_of [(''id'', ''1'')] ''id'' = Some ''1'' \<and>
   snd (get_user sample_env [(''id'', ''1'')] (fst (bootstrap sample_env fresh_world))) =
     Done \<lparr>status = 200,
           content = Json (JObj [(''rows'', JArr [JArr [JStr ''1'', JStr ''alice'']])])\<rparr>"
proof -
  have s: "seeded (fst (bootstrap sample_env fresh_world))" by code_simp
  have a: "map_of [(''id'', ''1'')] ''id'' = Some ''1''" by simp
  from get_user_id_1_returns_alice [OF s a, of sample_env] s a show ?thesis by simp
qed

text \<open>
  C10. Without an \<open>id\<close> parameter the handler takes the empty string as the id, the
  statement executed is \<open>SELECT id, username FROM users WHERE id = ''\<close>, and on the
  store with the two seed rows the response is status 200 with the JSON object
  \<open>{"rows": []}\<close>.
\<close>

theorem get_user_without_id_returns_no_rows:
  "seeded w \<Longrightarrow> map_of args ''id'' = None \<Longrightarrow>
   args_get args ''id'' [] = [] \<and>
   db_log (fst (get_user env args w)) ! Suc (length (db_log w)) =
     Execute (next_conn w) (''SELECT id, username FROM users WHERE id = '' @ [quote, quote]) \<and>
   snd (get_user env args w) =
     Done \<lparr>status = 200, content = Json (JObj [(''rows'', JArr [])])\<rparr>"
proof -
  assume s: "seeded w" and a: "map_of args ''id'' = None"
  from a have uid: "args_get args ''id'' [] = []" by (simp add: args_get_def)
  have sel: "run_select env (case store w of None \<Rightarrow> [] | Some d \<Rightarrow> d) (user_query []) =
      Done (filter (row_id_is []) seed_rows)"
    by (rule run_select_seeded [OF s literal_empty])
  have rows: "filter (row_id_is []) seed_rows = []"
    by (simp add: row_id_is_def seed_rows_def)
  have q: "user_query [] = ''SELECT id, username FROM users WHERE id = '' @ [quote, quote]"
    by (simp add: user_query_def select_prefix_def)
  have log: "db_log (fst (get_user env args w)) ! Suc (length (db_log w)) =
      Execute (next_conn w) (user_query [])"
    by (simp add: get_user_unfold uid sel rows closed_world_def nth_append)
  have res: "snd (get_user env args w) =
     Done \<lparr>status = 200, content = Json (JObj [(''rows'', JArr [])])\<rparr>"
    by (simp add: get_user_unfold uid sel rows)
  from uid log res q show ?thesis by simp
qed

theorem get_user_without_id_returns_no_rows_witness:
  "seeded seeded_world \<and> map_of ([] :: (str \<times> str) list) ''id'' = None \<and>
   snd (get_user sample_env [] seeded_world) =
     Done \<lparr>status = 200, content = Json (JObj [(''rows'', JArr [])])\<rparr>"
proof -
  have s: "seeded seeded_world" by code_simp
  have a: "map_of ([] :: (str \<times> str) list) ''id'' = None" by simp
  from get_user_without_id_returns_no_rows [OF s a, of sample_env] s a show ?thesis by simp
qed

text \<open>
  C7. On every path on which \<open>GET /user\<close> ends, by returning a response or by raising
  (from the execution of the query or from \<open>jsonify\<close>), the connection acquired for the
  request has been closed: the handles that are open are those open before the request,
  and the last event on the log is the closing of the handle that was acquired.
\<close>

theorem get_user_closes_connection:
  "snd (get_user env args w) \<noteq> Hang \<Longrightarrow>
   open_conns (fst (get_user env args w)) = open_conns w \<and>
   last (db_log (fst (get_user env args w))) = Close (next_conn w) \<and>
   Connect (next_conn w) \<in> set (db_log (fst (get_user env args w)))"
  by (simp add: get_user_unfold closed_world_def Let_def split: outcome.splits sum.splits)

theorem get_user_closes_connection_witness:
  "snd (get_user sample_env [(''id'', ''1'')] fresh_world) =
     Fault (OperationalError ''no such table: users'') \<and>
   snd (get_user sample_env [(''id'', ''1'')] fresh_world) \<noteq> Hang \<and>
   open_conns (fst (get_user sample_env [(''id'', ''1'')] fresh_world)) = open_conns fresh_world \<and>
   last (db_log (fst (get_user sample_env [(''id'', ''1'')] fresh_world))) = Close 0"
proof -
  have f: "snd (get_user sample_env [(''id'', ''1'')] fresh_world) =
     Fault (OperationalError ''no such table: users'')" by code_simp
  then have h: "snd (get_user sample_env [(''id'', ''1'')] fresh_world) \<noteq> Hang" by simp
  from get_user_closes_connection [OF h] f h show ?thesis by (simp add: fresh_world_def)
qed

lemma bootstrap_absent:
  "store w = None \<Longrightarrow>
   bootstrap env w =
     (w\<lparr>store := Some [(''users'', \<lparr>tbl_sql = create_users, tbl_rows = seed_rows\<rparr>)],
        next_conn := Suc (next_conn w),
        db_log := db_log w @
          [Connect (next_conn w), Execute (next_conn w) create_users,
           Execute (next_conn w) insert_seed, Commit (next_conn w), Close (next_conn w)]\<rparr>,
      Done ())"
proof -
  assume absent: "store w = None"
  have ns: "\<not> is_select create_users" "\<not> is_select insert_seed"
    by (simp_all add: is_select_def create_users_def insert_seed_def)
  have ne: "insert_seed \<noteq> create_users"
    by (simp add: create_users_def insert_seed_def)
  show ?thesis
    by (simp add: bootstrap_def absent connect_def conn_execute_def ns ne view_def
        conn_commit_def conn_close_def Let_def)
qed

text \<open>
  C6. When the store file is absent, bootstrap ends without a fault and the store then
  holds the table \<open>users (id, username)\<close> with exactly the rows \<open>('1', 'alice')\<close> and
  \<open>('2', 'bob')\<close>. When the store file is present, bootstrap changes nothing. In both
  cases a second bootstrap changes nothing.
\<close>

theorem bootstrap_seeds_once:
  "(store w = None \<longrightarrow>
      snd (bootstrap env w) = Done () \<and>
      store (fst (bootstrap env w)) =
        Some [(''users'',
               \<lparr>tbl_sql = ''CREATE TABLE users (id TEXT, username TEXT)'',
                tbl_rows = [[PStr ''1'', PStr ''alice''], [PStr ''2'', PStr ''bob'']]\<rparr>)] \<and>
      users_table (fst (bootstrap env w)) =
        Some [[PStr ''1'', PStr ''alice''], [PStr ''2'', PStr ''bob'']]) \<and>
   (store w \<noteq> None \<longrightarrow> bootstrap env w = (w, Done ())) \<and>
   bootstrap env (fst (bootstrap env w)) = (fst (bootstrap env w), Done ())"
proof (intro conjI impI)
  assume absent: "store w = None"
  from bootstrap_absent [OF absent, of env]
  show "snd (bootstrap env w) = Done ()" by simp
  from bootstrap_absent [OF absent, of env]
  show "store (fst (bootstrap env w)) =
        Some [(''users'',
               \<lparr>tbl_sql = ''CREATE TABLE users (id TEXT, username TEXT)'',
                tbl_rows = [[PStr ''1'', PStr ''alice''], [PStr ''2'', PStr ''bob'']]\<rparr>)]"
    by (simp add: create_users_def seed_rows_def)
  from bootstrap_absent [OF absent, of env]
  show "users_table (fst (bootstrap env w)) =
        Some [[PStr ''1'', PStr ''alice''], [PStr ''2'', PStr ''bob'']]"
    by (simp add: users_table_def seed_rows_def)
next
  assume "store w \<noteq> None"
  then show "bootstrap env w = (w, Done ())" by (simp add: bootstrap_def)
next
  show "bootstrap env (fst (bootstrap env w)) = (fst (bootstrap env w), Done ())"
  proof (cases "store w")
    case None
    from bootstrap_absent [OF None, of env]
    have "store (fst (bootstrap env w)) \<noteq> None" by simp
    then show ?thesis by (simp add: bootstrap_def)
  next
    case (Some db)
    then show ?thesis by (simp add: bootstrap_def)
  qed
qed

theorem bootstrap_seeds_once_witness:
  "store fresh_world = None \<and>
   users_table (fst (bootstrap sample_env fresh_world)) =
     Some [[PStr ''1'', PStr ''alice''], [PStr ''2'', PStr ''bob'']] \<and>
   store seeded_world \<noteq> None \<and>
   bootstrap sample_env seeded_world = (seeded_world, Done ())"
proof -
  have a: "store fresh_world = None" by (simp add: fresh_world_def)
  have b: "store seeded_world \<noteq> None" by (simp add: seeded_world_def)
  from bootstrap_seeds_once [of fresh_world sample_env]
       bootstrap_seeds_once [of seeded_world sample_env] a b
  show ?thesis by simp
qed

lemma run_unfold:
  "popen_communicate env (args_get json_body ''cmd'' ''echo Hello'') w = (w', Done p) \<Longrightarrow>
   run env json_body w =
     (w', if returncode p \<noteq> 0 then
            (if utf8_valid (err p) then Done \<lparr>status = 500, content = Text (err p)\<rparr>
             else Fault UnicodeDecodeError)
          else
            (if utf8_valid (out p) then Done \<lparr>status = 200, content = Text (out p)\<rparr>
             else Fault UnicodeDecodeError))"
  by (simp add: run_def utf8_decode_def)

lemma utf8_valid_hello: "utf8_valid (''Hello'' @ [newline])"
  by (simp add: newline_def between_def)

text \<open>
  C2, as the code has it. Let the command of \<open>POST /run\<close> be spawned and exit with the
  process result \<open>p\<close>. The response is status 200 with the bytes of standard output
  exactly when the return code is 0 and standard output is well-formed UTF-8; it is status
  500 with the bytes of standard error exactly when the return code is not 0 and standard
  error is well-formed UTF-8; in the remaining cases the decoding raises
  \<open>UnicodeDecodeError\<close>, which the handler does not catch. Where the shell prints
  \<open>Hello\<close> and a line feed for \<open>echo Hello\<close> and exits with 0, the response is status
  200 with that body; where it exits with 3 for \<open>exit 3\<close>, the response has status 500.
\<close>

theorem run_status_by_returncode:
  "(popen_communicate env (args_get json_body ''cmd'' ''echo Hello'') w = (w', Done p) \<longrightarrow>
      (snd (run env json_body w) = Done \<lparr>status = 200, content = Text (out p)\<rparr>
         \<longleftrightarrow> returncode p = 0 \<and> utf8_valid (out p)) \<and>
      (snd (run env json_body w) = Done \<lparr>status = 500, content = Text (err p)\<rparr>
         \<longleftrightarrow> returncode p \<noteq> 0 \<and> utf8_valid (err p)) \<and>
      (snd (run env json_body w) = Fault UnicodeDecodeError
         \<longleftrightarrow> (returncode p = 0 \<and> \<not> utf8_valid (out p)) \<or>
             (returncode p \<noteq> 0 \<and> \<not> utf8_valid (err p)))) \<and>
   (sh env ''echo Hello'' w = (w1, Done p1) \<and> returncode p1 = 0 \<and>
    out p1 = ''Hello'' @ [newline] \<longrightarrow>
      run env [(''cmd'', ''echo Hello'')] w =
        (w1, Done \<lparr>status = 200, content = Text (''Hello'' @ [newline])\<rparr>)) \<and>
   (sh env ''exit 3'' w = (w3, Done p3) \<and> returncode p3 = 3 \<and> utf8_valid (err p3) \<longrightarrow>
      run env [(''cmd'', ''exit 3'')] w =
        (w3, Done \<lparr>status = 500, content = Text (err p3)\<rparr>))"
proof (intro conjI impI)
  assume c: "popen_communicate env (args_get json_body ''cmd'' ''echo Hello'') w = (w', Done p)"
  show "snd (run env json_body w) = Done \<lparr>status = 200, content = Text (out p)\<rparr>
         \<longleftrightarrow> returncode p = 0 \<and> utf8_valid (out p)"
    by (simp add: run_unfold [OF c])
  show "snd (run env json_body w) = Done \<lparr>status = 500, content = Text (err p)\<rparr>
         \<longleftrightarrow> returncode p \<noteq> 0 \<and> utf8_valid (err p)"
    by (simp add: run_unfold [OF c])
  show "snd (run env json_body w) = Fault UnicodeDecodeError
         \<longleftrightarrow> (returncode p = 0 \<and> \<not> utf8_valid (out p)) \<or>
             (returncode p \<noteq> 0 \<and> \<not> utf8_valid (err p))"
    by (simp add: run_unfold [OF c])
next
  assume h: "sh env ''echo Hello'' w = (w1, Done p1) \<and> returncode p1 = 0 \<and>
    out p1 = ''Hello'' @ [newline]"
  then have "popen_communicate env (args_get [(''cmd'', ''echo Hello'')] ''cmd'' ''echo Hello'') w
      = (w1, Done p1)"
    by (simp add: popen_communicate_def args_get_def)
  from run_unfold [OF this] h utf8_valid_hello
  show "run env [(''cmd'', ''echo Hello'')] w =
        (w1, Done \<lparr>status = 200, content = Text (''Hello'' @ [newline])\<rparr>)"
    by simp
next
  assume h: "sh env ''exit 3'' w = (w3, Done p3) \<and> returncode p3 = 3 \<and> utf8_valid (err p3)"
  then have "popen_communicate env (args_get [(''cmd'', ''exit 3'')] ''cmd'' ''echo Hello'') w
      = (w3, Done p3)"
    by (simp add: popen_communicate_def args_get_def)
  from run_unfold [OF this] h
  show "run env [(''cmd'', ''exit 3'')] w =
        (w3, Done \<lparr>status = 500, content = Text (err p3)\<rparr>)"
    by simp
qed

theorem run_status_by_returncode_witness:
  "sh sample_env ''echo Hello'' seeded_world =
     (seeded_world, Done \<lparr>returncode = 0, out = ''Hello'' @ [newline], err = []\<rparr>) \<and>
   run sample_env [(''cmd'', ''echo Hello'')] seeded_world =
     (seeded_world, Done \<lparr>status = 200, content = Text (''Hello'' @ [newline])\<rparr>) \<and>
   sh sample_env ''exit 3'' seeded_world =
     (seeded_world, Done \<lparr>returncode = 3, out = [], err = []\<rparr>) \<and>
   run sample_env [(''cmd'', ''exit 3'')] seeded_world =
     (seeded_world, Done \<lparr>status = 500, content = Text []\<rparr>) \<and>
   popen_communicate sample_env (args_get [] ''cmd'' ''echo Hello'') seeded_world =
     (seeded_world, Done \<lparr>returncode = 0, out = ''Hello'' @ [newline], err = []\<rparr>) \<and>
   snd (run sample_env [] seeded_world) =
     Done \<lparr>status = 200, content = Text (''Hello'' @ [newline])\<rparr>"
proof -
  have e: "sh sample_env ''echo Hello'' seeded_world =
     (seeded_world, Done \<lparr>returncode = 0, out = ''Hello'' @ [newline], err = []\<rparr>)"
    by (simp add: sample_env_def sample_sh_def)
  have x: "sh sample_env ''exit 3'' seeded_world =
     (seeded_world, Done \<lparr>returncode = 3, out = [], err = []\<rparr>)"
    by (simp add: sample_env_def sample_sh_def)
  have d: "popen_communicate sample_env (args_get [] ''cmd'' ''echo Hello'') seeded_world =
     (seeded_world, Done \<lparr>returncode = 0, out = ''Hello'' @ [newline], err = []\<rparr>)"
    by (simp add: popen_communicate_def args_get_def e)
  note t = run_status_by_returncode [of sample_env _ seeded_world seeded_world _ seeded_world
      "\<lparr>returncode = 0, out = ''Hello'' @ [newline], err = []\<rparr>" seeded_world
      "\<lparr>returncode = 3, out = [], err = []\<rparr>"]
  from t [of "[]" "\<lparr>returncode = 0, out = ''Hello'' @ [newline], err = []\<rparr>"] e x d
       utf8_valid_hello
  show ?thesis by simp
qed

text \<open>
  Without the condition on the output the statement fails: \<open>printf '\377'\<close> exits with
  code 0 after printing the byte \<open>0xFF\<close>, which is not UTF-8, and the handler raises
  instead of answering with status 200.
\<close>

theorem run_undecodable_output_counterexample:
  "popen_communicate sample_env (args_get [(''cmd'', printf_ff)] ''cmd'' ''echo Hello'') seeded_world =
     (seeded_world, Done \<lparr>returncode = 0, out = [CHR 0xFF], err = []\<rparr>) \<and>
   returncode \<lparr>returncode = 0, out = [CHR 0xFF], err = []\<rparr> = 0 \<and>
   snd (run sample_env [(''cmd'', printf_ff)] seeded_world) \<noteq>
     Done \<lparr>status = 200, content = Text [CHR 0xFF]\<rparr> \<and>
   snd (run sample_env [(''cmd'', printf_ff)] seeded_world) = Fault UnicodeDecodeError"
  by code_simp

lemma universal_newlines_no_cr: "CHR 0x0D \<notin> set bs \<Longrightarrow> universal_newlines bs = bs"
  by (induction bs) auto

lemma read_file_cases:
  "read_file env args w =
     (w, let fn = args_get args ''file'' ''README.md'' in
         if CHR 0x00 \<in> set fn then Done \<lparr>status = 404, content = Text ''embedded null byte''\<rparr>
         else case map_of (files w) fn of
           None \<Rightarrow>
             Done \<lparr>status = 404,
                   content = Text (''[Errno 2] No such file or directory: '' @ repr env fn)\<rparr>
         | Some (Unreadable e) \<Rightarrow> Done \<lparr>status = 404, content = Text (exc_str env e)\<rparr>
         | Some (File bs) \<Rightarrow>
             if utf8_valid bs then Done \<lparr>status = 200, content = Text (universal_newlines bs)\<rparr>
             else Done \<lparr>status = 404, content = Text (exc_message env UnicodeDecodeError)\<rparr>)"
  by (simp add: read_file_def open_read_def utf8_decode_def exc_str_def Let_def
      split: option.splits node.splits)

text \<open>
  C4, as the code has it. For every value of the parameter \<open>file\<close>, \<open>GET /read\<close>
  answers with status 200 or 404 and never raises. It answers 200 exactly when the path
  names a file whose bytes are well-formed UTF-8, and the body is then the text of the
  file as text mode reads it: decoded, with every CR LF and every lone CR turned into LF
  (so it is the contents as they are when the file holds no CR). In every other case
  the fault is caught and the answer is status 404 with the \<open>str\<close> of the exception:
  bytes that are not UTF-8, a file that cannot be opened or read, a path at which there
  is nothing, a path with a NUL character. For a path at which there is nothing the
  message is \<open>[Errno 2] No such file or directory:\<close> followed by the \<open>repr\<close> of the
  path, which is not empty.
\<close>

theorem read_file_text_or_404:
  "fn = args_get args ''file'' ''README.md'' \<Longrightarrow>
   (CHR 0x00 \<notin> set fn \<and> map_of (files w) fn = Some (File bs) \<and> utf8_valid bs \<longrightarrow>
      read_file env args w =
        (w, Done \<lparr>status = 200, content = Text (universal_newlines bs)\<rparr>)) \<and>
   (CHR 0x00 \<notin> set fn \<and> map_of (files w) fn = Some (File bs) \<and> utf8_valid bs \<and>
    CHR 0x0D \<notin> set bs \<longrightarrow>
      read_file env args w = (w, Done \<lparr>status = 200, content = Text bs\<rparr>)) \<and>
   (CHR 0x00 \<notin> set fn \<and> map_of (files w) fn = Some (File bs) \<and> \<not> utf8_valid bs \<longrightarrow>
      read_file env args w =
        (w, Done \<lparr>status = 404, content = Text (exc_str env UnicodeDecodeError)\<rparr>)) \<and>
   (CHR 0x00 \<notin> set fn \<and> map_of (files w) fn = Some (Unreadable e) \<longrightarrow>
      read_file env args w = (w, Done \<lparr>status = 404, content = Text (exc_str env e)\<rparr>)) \<and>
   (CHR 0x00 \<notin> set fn \<and> map_of (files w) fn = None \<longrightarrow>
      read_file env args w =
        (w, Done \<lparr>status = 404,
                  content = Text (exc_str env (FileNotFoundError fn))\<rparr>) \<and>
      exc_str env (FileNotFoundError fn) =
        ''[Errno 2] No such file or directory: '' @ repr env fn \<and>
      exc_str env (FileNotFoundError fn) \<noteq> []) \<and>
   (CHR 0x00 \<in> set fn \<longrightarrow>
      read_file env args w =
        (w, Done \<lparr>status = 404, content = Text ''embedded null byte''\<rparr>)) \<and>
   ((\<exists>t. snd (read_file env args w) = Done \<lparr>status = 200, content = Text t\<rparr>) \<longleftrightarrow>
      CHR 0x00 \<notin> set fn \<and> (\<exists>cs. map_of (files w) fn = Some (File cs) \<and> utf8_valid cs)) \<and>
   (\<exists>r. read_file env args w = (w, Done r) \<and> (status r = 200 \<or> status r = 404))"
proof -
  assume fn: "fn = args_get args ''file'' ''README.md''"
  note rf = read_file_cases [of env args w, folded fn]
  have c1: "CHR 0x00 \<notin> set fn \<and> map_of (files w) fn = Some (File bs) \<and> utf8_valid bs \<longrightarrow>
      read_file env args w =
        (w, Done \<lparr>status = 200, content = Text (universal_newlines bs)\<rparr>)"
    by (simp add: rf)
  have c2: "CHR 0x00 \<notin> set fn \<and> map_of (files w) fn = Some (File bs) \<and> utf8_valid bs \<and>
    CHR 0x0D \<notin> set bs \<longrightarrow>
      read_file env args w = (w, Done \<lparr>status = 200, content = Text bs\<rparr>)"
    by (simp add: rf universal_newlines_no_cr)
  have c3: "CHR 0x00 \<notin> set fn \<and> map_of (files w) fn = Some (File bs) \<and> \<not> utf8_valid bs \<longrightarrow>
      read_file env args w =
        (w, Done \<lparr>status = 404, content = Text (exc_str env UnicodeDecodeError)\<rparr>)"
    by (simp add: rf exc_str_def)
  have c4: "CHR 0x00 \<notin> set fn \<and> map_of (files w) fn = Some (Unreadable e) \<longrightarrow>
      read_file env args w = (w, Done \<lparr>status = 404, content = Text (exc_str env e)\<rparr>)"
    by (simp add: rf)
  have c5: "CHR 0x00 \<notin> set fn \<and> map_of (files w) fn = None \<longrightarrow>
      read_file env args w =
        (w, Done \<lparr>status = 404,
                  content = Text (exc_str env (FileNotFoundError fn))\<rparr>) \<and>
      exc_str env (FileNotFoundError fn) =
        ''[Errno 2] No such file or directory: '' @ repr env fn \<and>
      exc_str env (FileNotFoundError fn) \<noteq> []"
    by (simp add: rf exc_str_def)
  have c6: "CHR 0x00 \<in> set fn \<longrightarrow>
      read_file env args w =
        (w, Done \<lparr>status = 404, content = Text ''embedded null byte''\<rparr>)"
    by (simp add: rf)
  have c7: "(\<exists>t. snd (read_file env args w) = Done \<lparr>status = 200, content = Text t\<rparr>) \<longleftrightarrow>
      CHR 0x00 \<notin> set fn \<and> (\<exists>cs. map_of (files w) fn = Some (File cs) \<and> utf8_valid cs)"
    by (auto simp: rf split: option.splits node.splits if_splits)
  have c8: "\<exists>r. read_file env args w = (w, Done r) \<and> (status r = 200 \<or> status r = 404)"
    by (auto simp: rf split: option.splits node.splits)
  from c1 c2 c3 c4 c5 c6 c7 c8 show ?thesis by (intro conjI)
qed


theorem read_file_text_or_404_witness:
  "snd (read_file sample_env [] files_world) = Done \<lparr>status = 200, content = Text ''demo''\<rparr> \<and>
   snd (read_file sample_env [(''file'', ''crlf.txt'')] files_world) =
     Done \<lparr>status = 200, content = Text (''a'' @ [newline] @ ''b'')\<rparr> \<and>
   snd (read_file sample_env [(''file'', ''bad.bin'')] files_world) =
     Done \<lparr>status = 404, content = Text ([quote] @ ''utf-8'' @ [quote] @ '' codec can'' @
       [quote] @ ''t decode byte 0xff in position 0: invalid start byte'')\<rparr> \<and>
   snd (read_file sample_env [(''file'', ''secret.txt'')] files_world) =
     Done \<lparr>status = 404, content = Text (''[Errno 13] Permission denied: '' @ [quote] @
       ''secret.txt'' @ [quote])\<rparr> \<and>
   snd (read_file sample_env [(''file'', ''does-not-exist.txt'')] files_world) =
     Done \<lparr>status = 404, content = Text (''[Errno 2] No such file or directory: '' @
       [quote] @ ''does-not-exist.txt'' @ [quote])\<rparr> \<and>
   snd (read_file sample_env [(''file'', [CHR 0x00])] files_world) =
     Done \<lparr>status = 404, content = Text ''embedded null byte''\<rparr>"
proof -
  have h1: "CHR 0x00 \<notin> set ''README.md'' \<and>
      map_of (files files_world) ''README.md'' = Some (File ''demo'') \<and> utf8_valid ''demo'' \<and>
      CHR 0x0D \<notin> set ''demo''"
    by code_simp
  have h2: "CHR 0x00 \<notin> set ''crlf.txt'' \<and>
      map_of (files files_world) ''crlf.txt'' = Some (File (''a'' @ [CHR 0x0D, newline] @ ''b'')) \<and>
      utf8_valid (''a'' @ [CHR 0x0D, newline] @ ''b'')"
    by code_simp
  have h3: "CHR 0x00 \<notin> set ''bad.bin'' \<and>
      map_of (files files_world) ''bad.bin'' = Some (File [CHR 0xFF]) \<and> \<not> utf8_valid [CHR 0xFF]"
    by code_simp
  have h4: "CHR 0x00 \<notin> set ''secret.txt'' \<and>
      map_of (files files_world) ''secret.txt'' =
        Some (Unreadable (OSError (''[Errno 13] Permission denied: '' @ [quote] @ ''secret.txt''
           @ [quote])))"
    by code_simp
  have h5: "CHR 0x00 \<notin> set ''does-not-exist.txt'' \<and>
      map_of (files files_world) ''does-not-exist.txt'' = None"
    by code_simp
  have h6: "CHR 0x00 \<in> set [CHR 0x00]" by simp
  have a0: "''README.md'' = args_get [] ''file'' ''README.md''"
    by (simp add: args_get_def)
  have a: "\<And>f. f = args_get [(''file'', f)] ''file'' ''README.md''"
    by (simp add: args_get_def)
  have r1: "read_file sample_env [] files_world =
      (files_world, Done \<lparr>status = 200, content = Text ''demo''\<rparr>)"
    by (rule read_file_text_or_404 [OF a0, THEN conjunct2, THEN conjunct1, THEN mp, OF h1])
  have r2: "read_file sample_env [(''file'', ''crlf.txt'')] files_world =
      (files_world, Done \<lparr>status = 200,
         content = Text (universal_newlines (''a'' @ [CHR 0x0D, newline] @ ''b''))\<rparr>)"
    by (rule read_file_text_or_404 [OF a, THEN conjunct1, THEN mp, OF h2])
  have n: "universal_newlines (''a'' @ [CHR 0x0D, newline] @ ''b'') = ''a'' @ [newline] @ ''b''"
    by code_simp
  have r3: "read_file sample_env [(''file'', ''bad.bin'')] files_world =
      (files_world, Done \<lparr>status = 404, content = Text (exc_str sample_env UnicodeDecodeError)\<rparr>)"
    by (rule read_file_text_or_404 [OF a, THEN conjunct2, THEN conjunct2, THEN conjunct1,
          THEN mp, OF h3])
  have m3: "exc_str sample_env UnicodeDecodeError = [quote] @ ''utf-8'' @ [quote] @
      '' codec can'' @ [quote] @ ''t decode byte 0xff in position 0: invalid start byte''"
    by (simp add: exc_str_def sample_env_def)
  have r4: "read_file sample_env [(''file'', ''secret.txt'')] files_world =
      (files_world, Done \<lparr>status = 404, content = Text (exc_str sample_env
         (OSError (''[Errno 13] Permission denied: '' @ [quote] @ ''secret.txt'' @ [quote])))\<rparr>)"
    by (rule read_file_text_or_404 [OF a, THEN conjunct2, THEN conjunct2, THEN conjunct2,
          THEN conjunct1, THEN mp, OF h4])
  have m4: "exc_str sample_env
         (OSError (''[Errno 13] Permission denied: '' @ [quote] @ ''secret.txt'' @ [quote])) =
      ''[Errno 13] Permission denied: '' @ [quote] @ ''secret.txt'' @ [quote]"
    by (simp add: exc_str_def)
  have r5: "read_file sample_env [(''file'', ''does-not-exist.txt'')] files_world =
      (files_world, Done \<lparr>status = 404,
         content = Text (exc_str sample_env (FileNotFoundError ''does-not-exist.txt''))\<rparr>)"
    by (rule read_file_text_or_404 [OF a, THEN conjunct2, THEN conjunct2, THEN conjunct2,
          THEN conjunct2, THEN conjunct1, THEN mp, OF h5, THEN conjunct1])
  have m5: "exc_str sample_env (FileNotFoundError ''does-not-exist.txt'') =
      ''[Errno 2] No such file or directory: '' @ [quote] @ ''does-not-exist.txt'' @ [quote]"
    by (simp add: exc_str_def sample_env_def)
  have r6: "read_file sample_env [(''file'', [CHR 0x00])] files_world =
      (files_world, Done \<lparr>status = 404, content = Text ''embedded null byte''\<rparr>)"
    by (rule read_file_text_or_404 [OF a, THEN conjunct2, THEN conjunct2, THEN conjunct2,
          THEN conjunct2, THEN conjunct2, THEN conjunct1, THEN mp, OF h6])
  show ?thesis
    by (intro conjI)
       (simp_all only: r1 r2 [unfolded n] r3 [unfolded m3] r4 [unfolded m4] r5 [unfolded m5] r6
          snd_conv)
qed

text \<open>
  The body is not always the contents of the file: a file that holds \<open>a\<close>, CR, LF,
  \<open>b\<close> is answered with \<open>a\<close>, LF, \<open>b\<close>.
\<close>

theorem read_file_crlf_counterexample:
  "map_of (files files_world) (args_get [(''file'', ''crlf.txt'')] ''file'' ''README.md'') =
     Some (File (''a'' @ [CHR 0x0D, CHR 0x0A] @ ''b'')) \<and>
   snd (read_file sample_env [(''file'', ''crlf.txt'')] files_world) =
     Done \<lparr>status = 200, content = Text (''a'' @ [CHR 0x0A] @ ''b'')\<rparr> \<and>
   snd (read_file sample_env [(''file'', ''crlf.txt'')] files_world) \<noteq>
     Done \<lparr>status = 200, content = Text (''a'' @ [CHR 0x0D, CHR 0x0A] @ ''b'')\<rparr>"
  by code_simp






text \<open>
  C8, as the code has it. \<open>GET /user\<close> leaves the rows of the \<open>users\<close> table and the
  files as they were, and \<open>GET /read\<close> leaves the whole world as it was. \<open>POST /run\<close>
  and \<open>POST /config\<close> do nothing to the store themselves: the world after the request
  is the world as the shell command, or the loader, left it.
\<close>

theorem routes_store_frame:
  "users_table (fst (get_user env args w)) = users_table w \<and>
   files (fst (get_user env args w)) = files w \<and>
   fst (read_file env args w) = w \<and>
   fst (run env json_body w) =
     (if CHR 0x00 \<in> set (args_get json_body ''cmd'' ''echo Hello'') then w
      else fst (sh env (args_get json_body ''cmd'' ''echo Hello'') w)) \<and>
   fst (load_config env data w) =
     (if utf8_valid data then fst (yaml_load env data w) else w)"
proof (intro conjI)
  show "users_table (fst (get_user env args w)) = users_table w"
    by (simp add: get_user_unfold closed_world_def users_table_def Let_def
        split: outcome.splits sum.splits option.splits)
  show "files (fst (get_user env args w)) = files w"
    by (simp add: get_user_unfold closed_world_def Let_def
        split: outcome.splits sum.splits option.splits)
  show "fst (read_file env args w) = w"
    by (simp add: read_file_def split: sum.splits)
  show "fst (run env json_body w) =
     (if CHR 0x00 \<in> set (args_get json_body ''cmd'' ''echo Hello'') then w
      else fst (sh env (args_get json_body ''cmd'' ''echo Hello'') w))"
    by (simp add: run_def popen_communicate_def Let_def
        split: prod.splits outcome.splits sum.splits)
  show "fst (load_config env data w) =
     (if utf8_valid data then fst (yaml_load env data w) else w)"
    by (simp add: load_config_def utf8_decode_def split: prod.splits outcome.splits sum.splits)
qed

theorem routes_store_frame_witness:
  "users_table (fst (get_user sample_env [(''id'', inject_all)] seeded_world)) =
     users_table seeded_world \<and>
   fst (read_file sample_env [] seeded_world) = seeded_world \<and>
   fst (run sample_env [] seeded_world) = fst (sh sample_env ''echo Hello'' seeded_world) \<and>
   fst (load_config sample_env ''a: b'' seeded_world) =
     fst (yaml_load sample_env ''a: b'' seeded_world)"
proof -
  have c: "args_get [] ''cmd'' ''echo Hello'' = ''echo Hello''"
    by (simp add: args_get_def)
  have v: "utf8_valid ''a: b''"
    by (simp add: between_def)
  from routes_store_frame [of sample_env "[(''id'', inject_all)]" seeded_world "[]" "''a: b''"]
  have g: "users_table (fst (get_user sample_env [(''id'', inject_all)] seeded_world)) =
     users_table seeded_world" by (rule conjunct1)
  from routes_store_frame [of sample_env "[]" seeded_world "[]" "''a: b''"]
  have rest: "fst (read_file sample_env [] seeded_world) = seeded_world \<and>
   fst (run sample_env [] seeded_world) =
     (if CHR 0x00 \<in> set (args_get [] ''cmd'' ''echo Hello'') then seeded_world
      else fst (sh sample_env (args_get [] ''cmd'' ''echo Hello'') seeded_world)) \<and>
   fst (load_config sample_env ''a: b'' seeded_world) =
     (if utf8_valid ''a: b'' then fst (yaml_load sample_env ''a: b'' seeded_world)
      else seeded_world)"
    by (rule conjunct2 [THEN conjunct2])
  from rest have r: "fst (read_file sample_env [] seeded_world) = seeded_world"
    by (rule conjunct1)
  from rest have "fst (run sample_env [] seeded_world) =
     (if CHR 0x00 \<in> set (args_get [] ''cmd'' ''echo Hello'') then seeded_world
      else fst (sh sample_env (args_get [] ''cmd'' ''echo Hello'') seeded_world))"
    by (rule conjunct2 [THEN conjunct1])
  then have s: "fst (run sample_env [] seeded_world) =
      fst (sh sample_env ''echo Hello'' seeded_world)"
    by (simp add: c)
  from rest have "fst (load_config sample_env ''a: b'' seeded_world) =
     (if utf8_valid ''a: b'' then fst (yaml_load sample_env ''a: b'' seeded_world)
      else seeded_world)"
    by (rule conjunct2 [THEN conjunct2])
  then have l: "fst (load_config sample_env ''a: b'' seeded_world) =
     fst (yaml_load sample_env ''a: b'' seeded_world)"
    by (simp only: v if_True)
  show ?thesis
    by (intro conjI) (rule g r s l)+
qed

text \<open>
  A request that destroys the user records: \<open>POST /run\<close> with the command
  \<open>rm test.db\<close> answers with status 200 and leaves no store file.
\<close>

theorem run_rm_store_counterexample:
  "users_table seeded_world = Some [[PStr ''1'', PStr ''alice''], [PStr ''2'', PStr ''bob'']] \<and>
   run sample_env [(''cmd'', ''rm test.db'')] seeded_world =
     (seeded_world\<lparr>store := None\<rparr>, Done \<lparr>status = 200, content = Text []\<rparr>) \<and>
   users_table (fst (run sample_env [(''cmd'', ''rm test.db'')] seeded_world)) = None"
  by code_simp

end
